theory Spec2Isabelle
  imports Complex_Main "HOL-Library.Word"
begin

section \<open>Signals (simulation/track\_signals.go)\<close>

subsection \<open>Data\<close>

text \<open>
  A Go \<open>float64\<close>. The code only ever compares such a value with the constant 0, so the
  model keeps the IEEE classes apart and nothing more: a finite value (both zeros are the
  finite value 0), an infinity with its sign, or a NaN.
\<close>

datatype float64 = Finite real | Infinity bool | NaN

text \<open>Go's \<open>x != 0\<close> on a \<open>float64\<close>: a NaN and the infinities are different from 0.\<close>

fun f64_ne_zero :: "float64 \<Rightarrow> bool" where
  "f64_ne_zero (Finite x) = (x \<noteq> 0)"
| "f64_ne_zero (Infinity s) = True"
| "f64_ne_zero NaN = True"

text \<open>\<open>type ActionTarget uint8\<close> with its three named constants.\<close>

type_synonym ActionTarget = "8 word"

definition ASAP :: ActionTarget where
  "ASAP = 0"

definition BeforeThisSignal :: ActionTarget where
  "BeforeThisSignal = 1"

definition BeforeNextSignal :: ActionTarget where
  "BeforeNextSignal = 2"

text \<open>\<open>time.Duration\<close> is an \<open>int64\<close> count of nanoseconds.\<close>

type_synonym Duration = "64 word"

record SignalAction =
  Target :: ActionTarget
  Speed :: float64
  Duration :: Duration

type_synonym signalLineStyle = "8 word"

type_synonym signalShape = "8 word"

text \<open>
  Modelled from the spec: the declaration of \<open>Color\<close> is not part of the sources; the spec
  calls it a colour descriptor of an aspect, and no function modelled here reads it.
\<close>

type_synonym Color = string

record SignalAspect =
  Name :: string
  LineStyle :: signalLineStyle
  OuterShapes :: "signalShape list"
  OuterColors :: "Color list"
  Shapes :: "signalShape list"
  ShapesColors :: "Color list"
  Actions :: "SignalAction list"

text \<open>Signal states, signal types and the signal library.\<close>

record SignalState =
  Aspect :: SignalAspect
  Conditions :: "string \<rightharpoonup> string list"

record SignalType =
  SignalType_Name :: string
  States :: "SignalState list"

record SignalLibrary =
  Aspects :: "string \<rightharpoonup> SignalAspect"
  Types :: "string \<rightharpoonup> SignalType"

subsection \<open>MeansProceed\<close>

text \<open>
  The three tests of \<open>SignalAspect.MeansProceed\<close>, in the order of the source;
  \<open>sa.Actions[0]\<close> is read only after the length test, so it is the head of a non-empty
  list.
\<close>

definition MeansProceed :: "SignalAspect \<Rightarrow> bool" where
  "MeansProceed sa =
     (case Actions sa of
        [] \<Rightarrow> True
      | a # _ \<Rightarrow>
          if f64_ne_zero (Speed a) then True
          else if Target a = BeforeNextSignal then True
          else False)"

section \<open>Routes and track items\<close>

text \<open>
  Modelled from the spec: the declarations of \<open>Position\<close>, \<open>Route\<close> and of the
  \<open>TrackItem\<close> interface are not part of the sources; only their uses are. Following the
  spec, items and routes refer to each other through identifiers that are resolved in
  the owning simulation's \<open>TrackItems\<close> table: a position is a track item paired with the
  neighbour it is entered from, a route has an identifier, its two bounding signals and
  its ordered positions.
\<close>

record Position =
  TrackItemID :: int
  PreviousItemID :: int

record Route =
  ID :: int
  BeginSignalId :: int
  EndSignalId :: int
  Positions :: "Position list"

datatype TrackItemType =
  TypeLine | TypeInvisibleLink | TypeEnd | TypePlatform | TypeText | TypePoints | TypeSignal

text \<open>
  Modelled from the spec: \<open>trackStruct\<close>, the part every track item embeds, is declared
  outside the sources. It holds the optional conflict item, the route that currently
  reserves the item and the neighbour this route enters from. A Go pointer or interface
  value that may be \<open>nil\<close> is an \<open>option\<close>; the code reads a route held by an item only
  through its \<open>ID\<close>.
\<close>

record trackStruct =
  ConflictItemID :: "int option"
  ActiveRoute :: "Route option"
  ActiveRoutePreviousItem :: "int option"

text \<open>What the \<open>TrackItem\<close> interface shows of an item: the embedded part and \<open>Type()\<close>.\<close>

record TrackItem = trackStruct +
  Type :: TrackItemType

subsection \<open>Signal items\<close>

record SignalItem =
  trackStruct :: trackStruct
  Xb :: float64
  Yb :: float64
  SignalTypeCode :: string
  Reverse :: bool
  TrainID :: int
  previousActiveRoute :: "Route option"
  nextActiveRoute :: "Route option"
  activeAspect :: "SignalAspect option"

definition SignalItem_Type :: "SignalItem \<Rightarrow> TrackItemType" where
  "SignalItem_Type si = TypeSignal"

definition Reversed :: "SignalItem \<Rightarrow> bool" where
  "Reversed si = Reverse si"

definition ActiveAspect :: "SignalItem \<Rightarrow> SignalAspect option" where
  "ActiveAspect si = activeAspect si"

text \<open>\<open>updateSignalState\<close> has an empty body.\<close>

definition updateSignalState :: "SignalItem \<Rightarrow> SignalItem" where
  "updateSignalState si = si"

text \<open>
  \<open>SignalItem.setActiveRoute\<close> calls the method of the embedded \<open>trackStruct\<close> and then
  \<open>updateSignalState\<close>. The embedded method is declared outside the sources: it is the
  parameter \<open>trackStruct_setActiveRoute\<close>, any function of the route, the previous item
  and the embedded part.
\<close>

definition setActiveRoute ::
  "(Route option \<Rightarrow> int option \<Rightarrow> trackStruct \<Rightarrow> trackStruct) \<Rightarrow>
   Route option \<Rightarrow> int option \<Rightarrow> SignalItem \<Rightarrow> SignalItem" where
  "setActiveRoute trackStruct_setActiveRoute r previous si =
     updateSignalState
       (si\<lparr>trackStruct := trackStruct_setActiveRoute r previous (trackStruct si)\<rparr>)"

text \<open>
  \<open>resetNextActiveRoute\<close>: the guard returns early when the route argument is not
  \<open>nil\<close>, a route is stored, and the two identifiers differ.
\<close>

definition resetNextActiveRoute :: "Route option \<Rightarrow> SignalItem \<Rightarrow> SignalItem" where
  "resetNextActiveRoute r si =
     (case (r, nextActiveRoute si) of
        (Some r', Some n) \<Rightarrow>
          if ID n \<noteq> ID r' then si
          else updateSignalState (si\<lparr>nextActiveRoute := None\<rparr>)
      | _ \<Rightarrow> updateSignalState (si\<lparr>nextActiveRoute := None\<rparr>))"

definition resetPreviousActiveRoute :: "Route option \<Rightarrow> SignalItem \<Rightarrow> SignalItem" where
  "resetPreviousActiveRoute r si =
     (case (r, previousActiveRoute si) of
        (Some r', Some p) \<Rightarrow>
          if ID p \<noteq> ID r' then si
          else updateSignalState (si\<lparr>previousActiveRoute := None\<rparr>)
      | _ \<Rightarrow> updateSignalState (si\<lparr>previousActiveRoute := None\<rparr>))"

section \<open>The standard routes manager\<close>

text \<open>
  The simulation's \<open>TrackItems\<close> table, \<open>map[int]TrackItem\<close>. The loader stores every item
  under its own identifier (\<open>ti.setId(tiId)\<close>, then \<open>sim.TrackItems[tiId] = ti\<close>), so
  \<open>ID()\<close> of an item found under a key is that key. Looking up a key that is absent gives
  the \<open>nil\<close> interface value, here \<open>None\<close>.
\<close>

type_synonym TrackItems = "int \<rightharpoonup> TrackItem"

text \<open>Calling a method on a \<open>nil\<close> interface value panics.\<close>

datatype error = NilDereference

text \<open>
  Modelled from the spec: the accessor \<open>ConflictItem()\<close> is declared outside the
  sources. The conflict item is referred to by its identifier and found in the table; an
  item without conflict item, or with one that the table does not have, gives \<open>nil\<close>.
\<close>

definition ConflictItem :: "TrackItems \<Rightarrow> TrackItem \<Rightarrow> TrackItem option" where
  "ConflictItem tis ti = (case ConflictItemID ti of None \<Rightarrow> None | Some c \<Rightarrow> tis c)"

text \<open>
  The test of line 37: the item has a conflict item, and this one has an active route.
\<close>

definition conflict_active :: "TrackItems \<Rightarrow> TrackItem \<Rightarrow> bool" where
  "conflict_active tis ti =
     (case ConflictItem tis ti of None \<Rightarrow> False | Some c \<Rightarrow> ActiveRoute c \<noteq> None)"

text \<open>
  The loop of \<open>CanActivate\<close> over the remaining positions, with the local variable
  \<open>flag\<close>. Each \<open>continue\<close> is the recursive call, each \<open>return\<close> a result; the order of
  the tests is the order of the source. \<open>pos.TrackItem()\<close> and \<open>pos.PreviousItem()\<close> are
  lookups in the table.
\<close>

fun CanActivate_loop :: "TrackItems \<Rightarrow> Route \<Rightarrow> bool \<Rightarrow> Position list \<Rightarrow> error + bool" where
  "CanActivate_loop tis r flag [] = Inr True"
| "CanActivate_loop tis r flag (pos # rest) =
     (case tis (TrackItemID pos) of
        None \<Rightarrow> Inl NilDereference
      | Some ti \<Rightarrow>
          if TrackItemID pos = BeginSignalId r \<or> TrackItemID pos = EndSignalId r
          then CanActivate_loop tis r flag rest
          else if conflict_active tis ti then Inr False
          else
            (case ActiveRoute ti of
               None \<Rightarrow> if flag then Inr False else CanActivate_loop tis r flag rest
             | Some ar \<Rightarrow>
                 if Type ti = TypePoints \<and> \<not> flag then Inr False
                 else
                   (case (tis (PreviousItemID pos), ActiveRoutePreviousItem ti) of
                      (Some previous, Some arp) \<Rightarrow>
                        if PreviousItemID pos \<noteq> arp then Inr False
                        else if ID ar = ID r then Inr True
                        else CanActivate_loop tis r True rest
                    | _ \<Rightarrow> Inl NilDereference)))"

text \<open>The receiver \<open>StandardManager\<close> is an empty struct and is left out.\<close>

definition CanActivate :: "TrackItems \<Rightarrow> Route \<Rightarrow> error + bool" where
  "CanActivate tis r = CanActivate_loop tis r False (Positions r)"

definition CanDeactivate :: "Route \<Rightarrow> bool" where
  "CanDeactivate r = True"

definition StandardManager_Name :: string where
  "StandardManager_Name = ''Standard Manager''"

subsection \<open>Vocabulary of the claims about routes\<close>

text \<open>A boundary position: its item is the begin signal or the end signal of the route.\<close>

definition boundary :: "Route \<Rightarrow> Position \<Rightarrow> bool" where
  "boundary r pos \<longleftrightarrow> TrackItemID pos = BeginSignalId r \<or> TrackItemID pos = EndSignalId r"

text \<open>
  The route is active at a position: the position's item is in the table and holds the
  route itself, entered from the position's previous item, which is in the table too.
\<close>

definition active_at :: "TrackItems \<Rightarrow> Route \<Rightarrow> Position \<Rightarrow> bool" where
  "active_at tis r pos =
     (case tis (TrackItemID pos) of
        None \<Rightarrow> False
      | Some ti \<Rightarrow>
          ActiveRoute ti = Some r
          \<and> ActiveRoutePreviousItem ti = Some (PreviousItemID pos)
          \<and> tis (PreviousItemID pos) \<noteq> None)"

definition fully_active :: "TrackItems \<Rightarrow> Route \<Rightarrow> bool" where
  "fully_active tis r = list_all (active_at tis r) (Positions r)"

text \<open>The first position of the route that is not a boundary position, if there is one.\<close>

definition first_body_position :: "Route \<Rightarrow> Position option" where
  "first_body_position r = find (\<lambda>pos. \<not> boundary r pos) (Positions r)"

text \<open>The position's item is free: it is in the table and holds no route.\<close>

definition free_at :: "TrackItems \<Rightarrow> Position \<Rightarrow> bool" where
  "free_at tis pos =
     (case tis (TrackItemID pos) of None \<Rightarrow> False | Some ti \<Rightarrow> ActiveRoute ti = None)"



subsection \<open>Activating routes\<close>















section \<open>The simulation: loading, starting, running\<close>

subsection \<open>Time and the simulation record\<close>

text \<open>
  An instant is a count of nanoseconds; the range of \<open>time.Time\<close>, some hundreds of
  billions of years, is taken to be unbounded. A \<open>time.Duration\<close> is a signed 64-bit
  count of nanoseconds, and \<open>Add\<close> moves an instant by it.
\<close>

type_synonym Time = int

definition Millisecond :: Duration where
  "Millisecond = 1000000"

definition TIME_STEP :: Duration where
  "TIME_STEP = 500 * Millisecond"

definition Add :: "Time \<Rightarrow> Duration \<Rightarrow> Time" where
  "Add t d = t + sint d"

text \<open>
  Modelled from the spec: \<open>options\<close> and \<open>Place\<close> are declared outside the sources. Of
  the options the code reads and writes \<open>CurrentTime\<close>; of a place its \<open>PlaceCode\<close>.
\<close>

record options =
  CurrentTime :: Time

record Place =
  PlaceCode :: string

text \<open>
  A channel value refers to a channel of the Go runtime; \<open>nil\<close> is \<open>None\<close> in the fields
  below. A ticker has its channel \<open>C\<close> and its period.
\<close>

datatype chan = Chan nat

record Ticker =
  Ticker_C :: chan
  Ticker_d :: Duration

definition NewTicker :: "chan \<Rightarrow> Duration \<Rightarrow> Ticker" where
  "NewTicker c d = \<lparr>Ticker_C = c, Ticker_d = d\<rparr>"

text \<open>
  The struct \<open>Simulation\<close>. The types of train types, services, trains and of the message
  logger are declared outside the sources and no function modelled here looks into them:
  they are the type parameters.
\<close>

record ('tt, 'sv, 'tr, 'ml) Simulation =
  SignalLib :: SignalLibrary
  TrackItems :: TrackItems
  Places :: "string \<rightharpoonup> Place"
  Options :: options
  Routes :: "int \<rightharpoonup> Route"
  TrainTypes :: "string \<rightharpoonup> 'tt"
  Services :: "string \<rightharpoonup> 'sv"
  Trains :: "'tr list"
  MessageLogger :: 'ml
  EventChan :: "chan option"
  clockTicker :: "Ticker option"
  stopChan :: "chan option"

subsection \<open>Start and run\<close>

text \<open>
  What a function asks of the Go runtime besides changing the simulation: starting the
  goroutine \<open>run\<close>, starting the goroutine that sends the clock event, stopping the
  ticker, writing to the log.
\<close>

datatype action = Go_run | Go_send_CLOCK | Ticker_Stop | Log_Info string

text \<open>
  \<open>Start\<close>. The three channels that \<open>time.NewTicker\<close> and the two \<open>make\<close> would
  allocate are parameters.
\<close>

definition Start ::
  "chan \<Rightarrow> chan \<Rightarrow> chan \<Rightarrow> ('tt, 'sv, 'tr, 'ml) Simulation \<Rightarrow>
   ('tt, 'sv, 'tr, 'ml) Simulation \<times> action list" where
  "Start tick_c stop_c event_c sim =
     (if clockTicker sim = None
      then (sim\<lparr>clockTicker := Some (NewTicker tick_c TIME_STEP),
                stopChan := Some stop_c,
                EventChan := Some event_c\<rparr>,
            [Go_run, Log_Info ''Simulation started''])
      else (sim, []))"

text \<open>
  \<open>run\<close> loops over a \<open>select\<close> with two cases. The model is given the list of the
  cases that the successive \<open>select\<close> statements choose. Entering a \<open>select\<close> evaluates
  \<open>sim.clockTicker.C\<close>, which panics when the ticker is \<open>nil\<close>. A stop request makes
  \<open>run\<close> return; when the list is used up, \<open>run\<close> is waiting in its \<open>select\<close>.
\<close>

datatype select_case = Stop_requested | Tick_due

datatype status = Returned | Waiting

fun run ::
  "('tt, 'sv, 'tr, 'ml) Simulation \<Rightarrow> select_case list \<Rightarrow>
   error + (status \<times> ('tt, 'sv, 'tr, 'ml) Simulation \<times> action list)" where
  "run sim [] =
     (case clockTicker sim of
        None \<Rightarrow> Inl NilDereference
      | Some t \<Rightarrow> Inr (Waiting, sim, []))"
| "run sim (Stop_requested # chosen) =
     (case clockTicker sim of
        None \<Rightarrow> Inl NilDereference
      | Some t \<Rightarrow>
          Inr (Returned, sim\<lparr>clockTicker := None, EventChan := None\<rparr>,
               [Ticker_Stop, Log_Info ''Simulation paused'']))"
| "run sim (Tick_due # chosen) =
     (case clockTicker sim of
        None \<Rightarrow> Inl NilDereference
      | Some t \<Rightarrow>
          (case run (sim\<lparr>Options := (Options sim)
                       \<lparr>CurrentTime := Add (CurrentTime (Options sim)) TIME_STEP\<rparr>\<rparr>) chosen of
             Inl e \<Rightarrow> Inl e
           | Inr (st, sim', acts) \<Rightarrow> Inr (st, sim', Go_send_CLOCK # acts)))"

subsection \<open>UnmarshalJSON\<close>

text \<open>
  \<open>strings.Trim\<close> removes the leading and the trailing characters that belong to the
  cutset.
\<close>

definition Trim :: "string \<Rightarrow> string \<Rightarrow> string" where
  "Trim s cutset =
     rev (dropWhile (\<lambda>c. c \<in> set cutset) (rev (dropWhile (\<lambda>c. c \<in> set cutset) s)))"

text \<open>
  \<open>strconv.Atoi\<close>: an optional sign, then one or more decimal digits, and a value that
  fits a 64-bit \<open>int\<close>; anything else is an error, here \<open>None\<close>.
\<close>

definition is_digit :: "char \<Rightarrow> bool" where
  "is_digit c \<longleftrightarrow> (48::nat) \<le> of_char c \<and> of_char c \<le> (57::nat)"

definition digit_value :: "char \<Rightarrow> int" where
  "digit_value c = of_char c - 48"

definition Atoi :: "string \<Rightarrow> int option" where
  "Atoi s =
     (let (neg, ds) =
        (case s of
           [] \<Rightarrow> (False, [])
         | c # cs \<Rightarrow>
             if c = CHR ''-'' then (True, cs)
             else if c = CHR ''+'' then (False, cs)
             else (False, s))
      in if ds = [] \<or> \<not> list_all is_digit ds then None
         else
           (let n = foldl (\<lambda>a c. 10 * a + digit_value c) 0 ds;
                v = (if neg then - n else n)
            in if - (2 ^ 63) \<le> v \<and> v < 2 ^ 63 then Some v else None))"

text \<open>The double quote, and a word between double quotes as the type tags are compared.\<close>

definition dquote :: char where
  "dquote = CHR 0x22"

definition quoted :: "string \<Rightarrow> string" where
  "quoted s = dquote # s @ [dquote]"

text \<open>
  The errors that \<open>UnmarshalJSON\<close> builds with \<open>fmt.Errorf\<close>, one constructor for each
  message.
\<close>

datatype load_error =
    Unable_to_decode_simulation_JSON
  | Unable_to_read_TrackItem
  | Unable_to_decode string
  | Unable_to_convert
  | Unable_to_decode_Place
  | Unknown_TrackItem_type string
  | RouteNum_is_invalid string

text \<open>
  The JSON decoder is a library. The model is given what it returns for the text of one
  track item: whether the text decodes as an object (into \<open>auxItem\<close>), the raw text of
  the member \<open>__type__\<close> (with its double quotes; empty when the member is absent), the
  result of decoding the text into the struct of a track item, and the result of decoding
  it into a \<open>placeStruct\<close>; \<open>None\<close> stands for an error of the decoder.
\<close>

record rawTrackItem =
  is_object :: bool
  type_tag :: string
  as_item :: "trackStruct option"
  as_place :: "Place option"

text \<open>
  \<open>auxSim\<close>, the decoded top level. A Go map is visited in no fixed order: the two maps
  that the function loops over are lists of pairs, in the order the loop visits them.
\<close>

record ('tt, 'sv, 'tr, 'ml) auxSim =
  aux_TrackItems :: "(string \<times> rawTrackItem) list"
  aux_Options :: options
  aux_SignalLib :: SignalLibrary
  aux_Routes :: "(string \<times> Route) list"
  aux_TrainTypes :: "string \<rightharpoonup> 'tt"
  aux_Services :: "string \<rightharpoonup> 'sv"
  aux_Trains :: "'tr list"
  aux_MessageLogger :: 'ml

text \<open>
  The closure \<open>unmarshalItem\<close>, for the item under the key \<open>tiId\<close> and the struct of
  type \<open>t\<close>: it returns its error, \<open>None\<close> for \<open>nil\<close>, and the simulation, which it
  changes only when it returns \<open>nil\<close>. \<open>setSimulation\<close> stores the reference to the
  simulation, which the model passes along; \<open>setId\<close> stores the key the item is filed
  under.
\<close>

definition unmarshalItem ::
  "string \<Rightarrow> rawTrackItem \<Rightarrow> TrackItemType \<Rightarrow> ('tt, 'sv, 'tr, 'ml) Simulation \<Rightarrow>
   load_error option \<times> ('tt, 'sv, 'tr, 'ml) Simulation" where
  "unmarshalItem tiId raw t sim =
     (case as_item raw of
        None \<Rightarrow> (Some (Unable_to_decode (type_tag raw)), sim)
      | Some ts \<Rightarrow>
          (case Atoi (Trim tiId [dquote]) of
             None \<Rightarrow> (Some Unable_to_convert, sim)
           | Some n \<Rightarrow>
               (None, sim\<lparr>TrackItems := (TrackItems sim)
                  (n \<mapsto> trackStruct.extend ts (TrackItem.fields t))\<rparr>)))"

text \<open>
  The loop over the track items. In each case of the \<open>switch\<close> for a track item the
  call \<open>unmarshalItem(&ti)\<close> is a statement: the error it returns is not read, and the
  loop goes on with the simulation as the call left it.
\<close>

fun load_TrackItems ::
  "(string \<times> rawTrackItem) list \<Rightarrow> ('tt, 'sv, 'tr, 'ml) Simulation \<Rightarrow>
   load_error + ('tt, 'sv, 'tr, 'ml) Simulation" where
  "load_TrackItems [] sim = Inr sim"
| "load_TrackItems ((tiId, raw) # rest) sim =
     (if \<not> is_object raw then Inl Unable_to_read_TrackItem
      else if type_tag raw = quoted ''LineItem''
        then load_TrackItems rest (snd (unmarshalItem tiId raw TypeLine sim))
      else if type_tag raw = quoted ''InvisibleLinkItem''
        then load_TrackItems rest (snd (unmarshalItem tiId raw TypeInvisibleLink sim))
      else if type_tag raw = quoted ''EndItem''
        then load_TrackItems rest (snd (unmarshalItem tiId raw TypeEnd sim))
      else if type_tag raw = quoted ''PlatformItem''
        then load_TrackItems rest (snd (unmarshalItem tiId raw TypePlatform sim))
      else if type_tag raw = quoted ''TextItem''
        then load_TrackItems rest (snd (unmarshalItem tiId raw TypeText sim))
      else if type_tag raw = quoted ''PointsItem''
        then load_TrackItems rest (snd (unmarshalItem tiId raw TypePoints sim))
      else if type_tag raw = quoted ''SignalItem''
        then load_TrackItems rest (snd (unmarshalItem tiId raw TypeSignal sim))
      else if type_tag raw = quoted ''Place''
        then (case as_place raw of
                None \<Rightarrow> Inl Unable_to_decode_Place
              | Some pl \<Rightarrow> load_TrackItems rest (sim\<lparr>Places := (Places sim)(PlaceCode pl \<mapsto> pl)\<rparr>))
      else Inl (Unknown_TrackItem_type (type_tag raw)))"

text \<open>
  The loop over the routes. \<open>Route.initialize\<close> is declared outside the sources: it is
  the parameter \<open>initialize\<close>, which may read the simulation.
\<close>

fun load_Routes ::
  "(('tt, 'sv, 'tr, 'ml) Simulation \<Rightarrow> Route \<Rightarrow> Route) \<Rightarrow> (string \<times> Route) list \<Rightarrow>
   ('tt, 'sv, 'tr, 'ml) Simulation \<Rightarrow> load_error + ('tt, 'sv, 'tr, 'ml) Simulation" where
  "load_Routes initialize [] sim = Inr sim"
| "load_Routes initialize ((num, route) # rest) sim =
     (case Atoi num of
        None \<Rightarrow> Inl (RouteNum_is_invalid num)
      | Some routeNum \<Rightarrow>
          load_Routes initialize rest
            (sim\<lparr>Routes := (Routes sim)(routeNum \<mapsto> initialize sim route)\<rparr>))"

text \<open>
  \<open>UnmarshalJSON\<close>. Its input is what the decoder returns for the whole text, \<open>None\<close>
  for an error. The calls of \<open>setSimulation\<close> on the train types, services, trains and
  the message logger store the reference to the simulation and change nothing that the
  model holds.
\<close>

definition UnmarshalJSON ::
  "(('tt, 'sv, 'tr, 'ml) Simulation \<Rightarrow> Route \<Rightarrow> Route) \<Rightarrow> ('tt, 'sv, 'tr, 'ml) auxSim option \<Rightarrow>
   ('tt, 'sv, 'tr, 'ml) Simulation \<Rightarrow> load_error + ('tt, 'sv, 'tr, 'ml) Simulation" where
  "UnmarshalJSON initialize data sim =
     (case data of
        None \<Rightarrow> Inl Unable_to_decode_simulation_JSON
      | Some rawSim \<Rightarrow>
          (case load_TrackItems (aux_TrackItems rawSim)
                  (sim\<lparr>TrackItems := Map.empty, Places := Map.empty\<rparr>) of
             Inl e \<Rightarrow> Inl e
           | Inr sim1 \<Rightarrow>
               (case load_Routes initialize (aux_Routes rawSim)
                       (sim1\<lparr>Options := aux_Options rawSim,
                             SignalLib := aux_SignalLib rawSim,
                             Routes := Map.empty\<rparr>) of
                  Inl e \<Rightarrow> Inl e
                | Inr sim2 \<Rightarrow>
                    Inr (sim2\<lparr>TrainTypes := aux_TrainTypes rawSim,
                              Services := aux_Services rawSim,
                              Trains := aux_Trains rawSim,
                              MessageLogger := aux_MessageLogger rawSim\<rparr>))))"

section \<open>Example data\<close>

text \<open>
  A small network. Route 7 runs from signal 1 to signal 4 over the points 2 and the line
  3; route 9 reaches the same end signal from signal 12 over the other branch of the
  points; route 8 runs on from signal 4 to signal 9 over the lines 5 and 6; route 10 runs
  over the line 6 in the opposite direction, from signal 9 to signal 11; route 12 runs
  from signal 22 to signal 23 over the line 20, which crosses the line 5.
\<close>

definition route_7 :: Route where
  "route_7 = \<lparr>ID = 7, BeginSignalId = 1, EndSignalId = 4,
     Positions = [\<lparr>TrackItemID = 1, PreviousItemID = 0\<rparr>,
                  \<lparr>TrackItemID = 2, PreviousItemID = 1\<rparr>,
                  \<lparr>TrackItemID = 3, PreviousItemID = 2\<rparr>,
                  \<lparr>TrackItemID = 4, PreviousItemID = 3\<rparr>]\<rparr>"

definition route_8 :: Route where
  "route_8 = \<lparr>ID = 8, BeginSignalId = 4, EndSignalId = 9,
     Positions = [\<lparr>TrackItemID = 4, PreviousItemID = 3\<rparr>,
                  \<lparr>TrackItemID = 5, PreviousItemID = 4\<rparr>,
                  \<lparr>TrackItemID = 6, PreviousItemID = 5\<rparr>,
                  \<lparr>TrackItemID = 9, PreviousItemID = 6\<rparr>]\<rparr>"

definition route_9 :: Route where
  "route_9 = \<lparr>ID = 9, BeginSignalId = 12, EndSignalId = 4,
     Positions = [\<lparr>TrackItemID = 12, PreviousItemID = 13\<rparr>,
                  \<lparr>TrackItemID = 2, PreviousItemID = 12\<rparr>,
                  \<lparr>TrackItemID = 3, PreviousItemID = 2\<rparr>,
                  \<lparr>TrackItemID = 4, PreviousItemID = 3\<rparr>]\<rparr>"


definition route_12 :: Route where
  "route_12 = \<lparr>ID = 12, BeginSignalId = 22, EndSignalId = 23,
     Positions = [\<lparr>TrackItemID = 22, PreviousItemID = 21\<rparr>,
                  \<lparr>TrackItemID = 20, PreviousItemID = 22\<rparr>,
                  \<lparr>TrackItemID = 23, PreviousItemID = 20\<rparr>]\<rparr>"

definition free_item :: "TrackItemType \<Rightarrow> TrackItem" where
  "free_item t = \<lparr>ConflictItemID = None, ActiveRoute = None,
     ActiveRoutePreviousItem = None, Type = t\<rparr>"

definition held_item :: "TrackItemType \<Rightarrow> Route \<Rightarrow> int \<Rightarrow> TrackItem" where
  "held_item t r previous = \<lparr>ConflictItemID = None, ActiveRoute = Some r,
     ActiveRoutePreviousItem = Some previous, Type = t\<rparr>"

text \<open>Route 7 is set on each of its positions; its first item after the signal is the points.\<close>

definition network_route_7_set :: TrackItems where
  "network_route_7_set =
     [0 \<mapsto> free_item TypeLine,
      1 \<mapsto> held_item TypeSignal route_7 0,
      2 \<mapsto> held_item TypePoints route_7 1,
      3 \<mapsto> held_item TypeLine route_7 2,
      4 \<mapsto> held_item TypeSignal route_7 3]"

text \<open>Route 9 holds the points 2 and the line 3; route 7 is not set.\<close>

definition network_route_9_set :: TrackItems where
  "network_route_9_set =
     [0 \<mapsto> free_item TypeLine,
      1 \<mapsto> free_item TypeSignal,
      2 \<mapsto> held_item TypePoints route_9 12,
      3 \<mapsto> held_item TypeLine route_9 2,
      4 \<mapsto> free_item TypeSignal]"

text \<open>Route 8 is set on each of its positions, none of them points or in conflict.\<close>

definition network_route_8_set :: TrackItems where
  "network_route_8_set =
     [3 \<mapsto> free_item TypeLine,
      4 \<mapsto> held_item TypeSignal route_8 3,
      5 \<mapsto> held_item TypeLine route_8 4,
      6 \<mapsto> held_item TypeLine route_8 5,
      9 \<mapsto> held_item TypeSignal route_8 6]"

text \<open>
  As before, but the line 5 crosses the line 20, its conflict item, and the line 20 holds
  route 12.
\<close>

definition network_route_8_crossed :: TrackItems where
  "network_route_8_crossed =
     [3 \<mapsto> free_item TypeLine,
      4 \<mapsto> held_item TypeSignal route_8 3,
      5 \<mapsto> (held_item TypeLine route_8 4)\<lparr>ConflictItemID := Some 20\<rparr>,
      6 \<mapsto> held_item TypeLine route_8 5,
      9 \<mapsto> held_item TypeSignal route_8 6,
      20 \<mapsto> (held_item TypeLine route_12 22)\<lparr>ConflictItemID := Some 5\<rparr>]"








text \<open>Signal 4 ends route 7 and begins route 8.\<close>

definition signal_4 :: SignalItem where
  "signal_4 = \<lparr>trackStruct = \<lparr>ConflictItemID = None, ActiveRoute = None,
                                ActiveRoutePreviousItem = None\<rparr>,
     Xb = Finite 0, Yb = Finite 0, SignalTypeCode = ''UK_3_ASPECTS'', Reverse = False,
     TrainID = 0, previousActiveRoute = Some route_7, nextActiveRoute = Some route_8,
     activeAspect = None\<rparr>"

text \<open>
  A simulation that is loaded and stopped, at 06:00:00 of its day, and the channels that
  a first and a second \<open>Start\<close> would allocate.
\<close>

definition stopped_simulation :: "(unit, unit, unit, unit) Simulation" where
  "stopped_simulation =
     \<lparr>SignalLib = \<lparr>Aspects = Map.empty, Types = Map.empty\<rparr>,
      TrackItems = network_route_7_set,
      Places = Map.empty,
      Options = \<lparr>CurrentTime = 21600000000000\<rparr>,
      Routes = [7 \<mapsto> route_7],
      TrainTypes = Map.empty,
      Services = Map.empty,
      Trains = [],
      MessageLogger = (),
      EventChan = None,
      clockTicker = None,
      stopChan = None\<rparr>"

definition started_simulation :: "(unit, unit, unit, unit) Simulation" where
  "started_simulation = fst (Start (Chan 0) (Chan 1) (Chan 2) stopped_simulation)"

text \<open>
  The decoded form of a simulation file whose only track item is a line filed under the
  key \<open>abc\<close>:
  \<^verbatim>\<open>{"trackItems": {"abc": {"__type__": "LineItem"}}, "options": {},
   "signalLibrary": {}, "routes": {}, "trainTypes": {}, "services": {},
   "trains": [], "messageLogger": {}}\<close>
\<close>

definition line_text :: rawTrackItem where
  "line_text = \<lparr>is_object = True, type_tag = quoted ''LineItem'',
     as_item = Some \<lparr>ConflictItemID = None, ActiveRoute = None,
                      ActiveRoutePreviousItem = None\<rparr>,
     as_place = Some \<lparr>PlaceCode = []\<rparr>\<rparr>"

definition file_with_key_abc :: "(unit, unit, unit, unit) auxSim" where
  "file_with_key_abc =
     \<lparr>aux_TrackItems = [(''abc'', line_text)],
      aux_Options = \<lparr>CurrentTime = 0\<rparr>,
      aux_SignalLib = \<lparr>Aspects = Map.empty, Types = Map.empty\<rparr>,
      aux_Routes = [],
      aux_TrainTypes = Map.empty,
      aux_Services = Map.empty,
      aux_Trains = [],
      aux_MessageLogger = ()\<rparr>"

text \<open>The tags of the eight cases of the \<open>switch\<close>.\<close>

definition known_tags :: "string list" where
  "known_tags = map quoted [''LineItem'', ''InvisibleLinkItem'', ''EndItem'',
     ''PlatformItem'', ''TextItem'', ''PointsItem'', ''SignalItem'', ''Place'']"

section \<open>Properties of the signals\<close>

text \<open>
  Claim C5. An aspect means proceed exactly when its action list is empty, or its first
  action has a nonzero speed, or its first action's target is BeforeNextSignal. In
  particular: an empty action list gives proceed; a first action with speed 0 and target
  BeforeThisSignal gives stop; a first action with target BeforeNextSignal gives proceed
  whatever its speed.
\<close>

theorem MeansProceed_iff:
  "(MeansProceed sa \<longleftrightarrow>
      (Actions sa = []
       \<or> (\<exists>a rest. Actions sa = a # rest \<and> f64_ne_zero (Speed a))
       \<or> (\<exists>a rest. Actions sa = a # rest \<and> Target a = BeforeNextSignal)))
   \<and> (Actions sa = [] \<longrightarrow> MeansProceed sa)
   \<and> (\<forall>a rest. Actions sa = a # rest \<and> Speed a = Finite 0 \<and> Target a = BeforeThisSignal
         \<longrightarrow> \<not> MeansProceed sa)
   \<and> (\<forall>a rest. Actions sa = a # rest \<and> Target a = BeforeNextSignal \<longrightarrow> MeansProceed sa)"
  by (cases "Actions sa")
     (auto simp: MeansProceed_def BeforeThisSignal_def BeforeNextSignal_def)


theorem MeansProceed_iff_witness:
  "MeansProceed \<lparr>Name = ''clear'', LineStyle = 0, OuterShapes = [], OuterColors = [],
      Shapes = [], ShapesColors = [], Actions = []\<rparr>
   \<and> \<not> MeansProceed \<lparr>Name = ''danger'', LineStyle = 0, OuterShapes = [], OuterColors = [],
      Shapes = [], ShapesColors = [],
      Actions = [\<lparr>Target = BeforeThisSignal, Speed = Finite 0, Duration = 0\<rparr>]\<rparr>
   \<and> MeansProceed \<lparr>Name = ''caution'', LineStyle = 0, OuterShapes = [], OuterColors = [],
      Shapes = [], ShapesColors = [],
      Actions = [\<lparr>Target = BeforeNextSignal, Speed = Finite 0, Duration = 0\<rparr>]\<rparr>"
  using
    MeansProceed_iff [of "\<lparr>Name = ''clear'', LineStyle = 0, OuterShapes = [],
      OuterColors = [], Shapes = [], ShapesColors = [], Actions = []\<rparr>"]
    MeansProceed_iff [of "\<lparr>Name = ''danger'', LineStyle = 0, OuterShapes = [],
      OuterColors = [], Shapes = [], ShapesColors = [],
      Actions = [\<lparr>Target = BeforeThisSignal, Speed = Finite 0, Duration = 0\<rparr>]\<rparr>"]
    MeansProceed_iff [of "\<lparr>Name = ''caution'', LineStyle = 0, OuterShapes = [],
      OuterColors = [], Shapes = [], ShapesColors = [],
      Actions = [\<lparr>Target = BeforeNextSignal, Speed = Finite 0, Duration = 0\<rparr>]\<rparr>"]
  by (simp add: BeforeThisSignal_def BeforeNextSignal_def)

text \<open>
  Claim C7. For a route argument that is not \<open>nil\<close>: when the signal stores a next
  (respectively previous) active route with a different identifier, the reset leaves the
  signal as it is; when the stored route has the identifier of the argument, the field
  becomes \<open>nil\<close>. Both functions are total on every signal and route: no case fails.
\<close>

theorem reset_active_route_mismatch_noop:
  "(nextActiveRoute si = Some n \<and> ID n \<noteq> ID r \<longrightarrow> resetNextActiveRoute (Some r) si = si)
   \<and> (nextActiveRoute si = Some n \<and> ID n = ID r \<longrightarrow>
        nextActiveRoute (resetNextActiveRoute (Some r) si) = None)
   \<and> (previousActiveRoute si = Some p \<and> ID p \<noteq> ID r \<longrightarrow>
        resetPreviousActiveRoute (Some r) si = si)
   \<and> (previousActiveRoute si = Some p \<and> ID p = ID r \<longrightarrow>
        previousActiveRoute (resetPreviousActiveRoute (Some r) si) = None)"
  by (simp add: resetNextActiveRoute_def resetPreviousActiveRoute_def updateSignalState_def)

theorem reset_active_route_mismatch_noop_witness:
  "resetNextActiveRoute (Some route_7) signal_4 = signal_4
   \<and> previousActiveRoute (resetPreviousActiveRoute (Some route_7) signal_4) = None
   \<and> resetPreviousActiveRoute (Some route_8) signal_4 = signal_4
   \<and> nextActiveRoute (resetNextActiveRoute (Some route_8) signal_4) = None"
  using reset_active_route_mismatch_noop [of signal_4 route_8 route_7 route_7]
    reset_active_route_mismatch_noop [of signal_4 route_8 route_8 route_7]
  by (simp add: signal_4_def route_7_def route_8_def)

text \<open>
  Claim C10. \<open>setActiveRoute\<close>, \<open>resetNextActiveRoute\<close> and \<open>resetPreviousActiveRoute\<close>
  leave the aspect that \<open>ActiveAspect\<close> returns unchanged, for every signal, every route
  argument and every behaviour of the embedded \<open>trackStruct.setActiveRoute\<close>.
\<close>

theorem ActiveAspect_unchanged:
  "ActiveAspect (setActiveRoute f r previous si) = ActiveAspect si
   \<and> ActiveAspect (resetNextActiveRoute r si) = ActiveAspect si
   \<and> ActiveAspect (resetPreviousActiveRoute r si) = ActiveAspect si"
  by (simp add: ActiveAspect_def setActiveRoute_def resetNextActiveRoute_def
      resetPreviousActiveRoute_def updateSignalState_def split: option.split)

section \<open>Properties of the standard routes manager\<close>

lemma CanActivate_loop_occupied_Points:
  assumes "\<forall>q\<in>set pre. (boundary r q \<and> tis (TrackItemID q) \<noteq> None) \<or> free_at tis q"
    and "\<not> boundary r p"
    and "tis (TrackItemID p) = Some ti"
    and "Type ti = TypePoints"
    and "ActiveRoute ti \<noteq> None"
  shows "CanActivate_loop tis r False (pre @ p # post) = Inr False"
  using assms
  by (induction pre) (auto simp: boundary_def free_at_def split: option.splits)

lemma CanActivate_loop_active:
  assumes "list_all (active_at tis r) ps"
    and "\<forall>p ti. find (\<lambda>pos. \<not> boundary r pos) ps = Some p \<and> tis (TrackItemID p) = Some ti
           \<longrightarrow> Type ti \<noteq> TypePoints \<and> \<not> conflict_active tis ti"
  shows "CanActivate_loop tis r False ps = Inr True"
  using assms
  by (induction ps) (auto simp: boundary_def active_at_def split: option.splits)


text \<open>
  Claim C1, as stated: a route that is active on all its positions is accepted again.
  This fails on the code in two ways. When the first position after the boundary signals
  is a points item, the test for points (line 49) comes before the test for the same
  route (line 58) and rejects; when that item's conflict item holds a route, the test of
  line 37 rejects.
\<close>

theorem CanActivate_fully_active_counterexample:
  "fully_active network_route_7_set route_7
   \<and> CanActivate network_route_7_set route_7 = Inr False
   \<and> fully_active network_route_8_crossed route_8
   \<and> CanActivate network_route_8_crossed route_8 = Inr False"
  by (simp add: fully_active_def active_at_def CanActivate_def conflict_active_def
      ConflictItem_def network_route_7_set_def network_route_8_crossed_def
      route_7_def route_8_def held_item_def free_item_def)

text \<open>
  Claim C1, amended. A route that is active on all its positions is accepted again,
  provided that the item of its first position other than the boundary signals, when
  there is one, is not a points item and has no conflict item holding a route.
\<close>

theorem CanActivate_accepts_fully_active:
  assumes "fully_active tis r"
    and "\<forall>p ti. first_body_position r = Some p \<and> tis (TrackItemID p) = Some ti
           \<longrightarrow> Type ti \<noteq> TypePoints \<and> \<not> conflict_active tis ti"
  shows "CanActivate tis r = Inr True"
  using assms CanActivate_loop_active [of tis r "Positions r"]
  by (simp add: CanActivate_def fully_active_def first_body_position_def)

theorem CanActivate_accepts_fully_active_witness:
  "fully_active network_route_8_set route_8
   \<and> first_body_position route_8 = Some \<lparr>TrackItemID = 5, PreviousItemID = 4\<rparr>
   \<and> network_route_8_set 5 = Some (held_item TypeLine route_8 4)
   \<and> \<not> conflict_active network_route_8_set (held_item TypeLine route_8 4)
   \<and> CanActivate network_route_8_set route_8 = Inr True"
proof -
  have active: "fully_active network_route_8_set route_8"
    by (simp add: fully_active_def active_at_def network_route_8_set_def route_8_def
        held_item_def free_item_def)
  have first: "first_body_position route_8 = Some \<lparr>TrackItemID = 5, PreviousItemID = 4\<rparr>"
    by (simp add: first_body_position_def boundary_def route_8_def)
  have item: "network_route_8_set 5 = Some (held_item TypeLine route_8 4)"
    by (simp add: network_route_8_set_def)
  have quiet: "\<not> conflict_active network_route_8_set (held_item TypeLine route_8 4)"
    by (simp add: conflict_active_def ConflictItem_def held_item_def)
  have "\<forall>p ti. first_body_position route_8 = Some p \<and> network_route_8_set (TrackItemID p) = Some ti
          \<longrightarrow> Type ti \<noteq> TypePoints \<and> \<not> conflict_active network_route_8_set ti"
    using first item quiet by (auto simp: held_item_def)
  then have "CanActivate network_route_8_set route_8 = Inr True"
    using CanActivate_accepts_fully_active [OF active] by blast
  with active first item quiet show ?thesis by simp
qed

text \<open>
  Claim C2. Walking the positions of a route in order, when the first item met that holds
  a route, boundary signals apart, is a points item and the route it holds is not the
  route being activated, \<open>CanActivate\<close> returns false. The items of the positions walked
  are taken to be in the table.
\<close>

theorem CanActivate_rejects_occupied_first_Points:
  assumes "Positions r = pre @ p # post"
    and "\<forall>q\<in>set pre. (boundary r q \<and> tis (TrackItemID q) \<noteq> None) \<or> free_at tis q"
    and "\<not> boundary r p"
    and "tis (TrackItemID p) = Some ti"
    and "Type ti = TypePoints"
    and "ActiveRoute ti = Some a"
    and "ID a \<noteq> ID r"
  shows "CanActivate tis r = Inr False"
  using assms CanActivate_loop_occupied_Points [of pre r tis p ti post]
  by (simp add: CanActivate_def)

theorem CanActivate_rejects_occupied_first_Points_witness:
  "Positions route_7 = [\<lparr>TrackItemID = 1, PreviousItemID = 0\<rparr>]
      @ \<lparr>TrackItemID = 2, PreviousItemID = 1\<rparr>
      # [\<lparr>TrackItemID = 3, PreviousItemID = 2\<rparr>, \<lparr>TrackItemID = 4, PreviousItemID = 3\<rparr>]
   \<and> boundary route_7 \<lparr>TrackItemID = 1, PreviousItemID = 0\<rparr>
   \<and> \<not> boundary route_7 \<lparr>TrackItemID = 2, PreviousItemID = 1\<rparr>
   \<and> network_route_9_set 2 = Some (held_item TypePoints route_9 12)
   \<and> ID route_9 \<noteq> ID route_7
   \<and> CanActivate network_route_9_set route_7 = Inr False"
  using CanActivate_rejects_occupied_first_Points
    [of route_7 "[\<lparr>TrackItemID = 1, PreviousItemID = 0\<rparr>]"
      "\<lparr>TrackItemID = 2, PreviousItemID = 1\<rparr>"
      "[\<lparr>TrackItemID = 3, PreviousItemID = 2\<rparr>, \<lparr>TrackItemID = 4, PreviousItemID = 3\<rparr>]"
      network_route_9_set "held_item TypePoints route_9 12" route_9]
  by (simp add: boundary_def free_at_def network_route_9_set_def route_7_def route_9_def
      held_item_def free_item_def)


















text \<open>
  Claim C8. \<open>CanDeactivate\<close> returns true for every route; it reads neither the route nor
  the track items, so whether the route is active plays no part.
\<close>

theorem CanDeactivate_always:
  "CanDeactivate r = True"
  by (simp add: CanDeactivate_def)

section \<open>Properties of the simulation\<close>

lemma sint_TIME_STEP:
  "sint TIME_STEP = 500000000"
  by (simp add: TIME_STEP_def Millisecond_def)

lemma run_ticks:
  "clockTicker sim \<noteq> None \<Longrightarrow>
   run sim (replicate n Tick_due) =
     Inr (Waiting,
          sim\<lparr>Options := (Options sim)
                \<lparr>CurrentTime := CurrentTime (Options sim) + int n * 500000000\<rparr>\<rparr>,
          replicate n Go_send_CLOCK)"
proof (induction n arbitrary: sim)
  case 0
  then show ?case by (cases "clockTicker sim") auto
next
  case (Suc n)
  then obtain t where t: "clockTicker sim = Some t" by auto
  let ?sim = "sim\<lparr>Options := (Options sim)
                       \<lparr>CurrentTime := Add (CurrentTime (Options sim)) TIME_STEP\<rparr>\<rparr>"
  have "clockTicker ?sim \<noteq> None" using t by simp
  from Suc.IH [OF this] show ?case
    using t by (simp add: Add_def sint_TIME_STEP algebra_simps)
qed

lemma run_whole_steps:
  "clockTicker sim \<noteq> None \<Longrightarrow>
   \<exists>st sim' acts k. run sim chosen = Inr (st, sim', acts) \<and> k \<le> length chosen
     \<and> CurrentTime (Options sim') = CurrentTime (Options sim) + int k * 500000000"
proof (induction sim chosen rule: run.induct)
  case (1 sim)
  then show ?case by (cases "clockTicker sim") auto
next
  case (2 sim chosen)
  then show ?case by (cases "clockTicker sim") auto
next
  case (3 sim chosen)
  then obtain t where t: "clockTicker sim = Some t" by auto
  let ?sim = "sim\<lparr>Options := (Options sim)
                       \<lparr>CurrentTime := Add (CurrentTime (Options sim)) TIME_STEP\<rparr>\<rparr>"
  have "clockTicker ?sim \<noteq> None" using t by simp
  from 3(1) [OF t this] obtain st sim' acts k where
    r: "run ?sim chosen = Inr (st, sim', acts)" and k: "k \<le> length chosen"
    and c: "CurrentTime (Options sim') = CurrentTime (Options ?sim) + int k * 500000000"
    by blast
  have "run sim (Tick_due # chosen) = Inr (st, sim', Go_send_CLOCK # acts)"
    using t r by simp
  moreover have "CurrentTime (Options sim') = CurrentTime (Options sim) + int (Suc k) * 500000000"
    using c by (simp add: Add_def sint_TIME_STEP algebra_simps)
  moreover have "Suc k \<le> length (Tick_due # chosen)" using k by simp
  ultimately show ?case by blast
qed

text \<open>
  Claim C6. \<open>TIME_STEP\<close> is 500 ms. From a started clock, \<open>n\<close> ticks leave \<open>run\<close> waiting
  with \<open>CurrentTime\<close> at its start value plus \<open>n\<close> times 500 ms. Whatever cases the
  \<open>select\<close> statements choose, \<open>run\<close> does not fail and the \<open>CurrentTime\<close> it reaches is
  the start value plus a whole number of steps.
\<close>

theorem run_advances_CurrentTime_by_TIME_STEP:
  assumes "clockTicker sim \<noteq> None"
  shows "sint TIME_STEP = 500 * sint Millisecond \<and> sint Millisecond = 1000000
    \<and> run sim (replicate n Tick_due) =
        Inr (Waiting,
             sim\<lparr>Options := (Options sim)
                   \<lparr>CurrentTime := CurrentTime (Options sim) + int n * sint TIME_STEP\<rparr>\<rparr>,
             replicate n Go_send_CLOCK)
    \<and> (\<exists>st sim' acts k. run sim chosen = Inr (st, sim', acts) \<and> k \<le> length chosen
          \<and> CurrentTime (Options sim') = CurrentTime (Options sim) + int k * sint TIME_STEP)"
  using assms run_ticks [of sim n] run_whole_steps [of sim chosen]
  by (simp add: sint_TIME_STEP Millisecond_def)

theorem run_advances_CurrentTime_by_TIME_STEP_witness:
  "clockTicker started_simulation \<noteq> None
   \<and> CurrentTime (Options started_simulation) = 21600000000000
   \<and> (\<exists>sim' acts. run started_simulation [Tick_due, Tick_due, Tick_due] = Inr (Waiting, sim', acts)
        \<and> CurrentTime (Options sim') = 21601500000000)"
proof -
  have started: "clockTicker started_simulation \<noteq> None"
    by (simp add: started_simulation_def stopped_simulation_def Start_def)
  have start_time: "CurrentTime (Options started_simulation) = 21600000000000"
    by (simp add: started_simulation_def stopped_simulation_def Start_def)
  have three: "replicate 3 Tick_due = [Tick_due, Tick_due, Tick_due]"
    by (simp add: numeral_3_eq_3)
  from run_advances_CurrentTime_by_TIME_STEP [OF started, of 3 "[]"]
  have "run started_simulation [Tick_due, Tick_due, Tick_due] =
     Inr (Waiting,
          started_simulation\<lparr>Options := (Options started_simulation)
            \<lparr>CurrentTime := CurrentTime (Options started_simulation) + int 3 * sint TIME_STEP\<rparr>\<rparr>,
          replicate 3 Go_send_CLOCK)"
    by (simp only: three)
  with started start_time show ?thesis
    by (simp add: sint_TIME_STEP)
qed

text \<open>
  Claim C9. \<open>Start\<close> on a simulation whose ticker exists returns the simulation as it
  is, every field included, and asks nothing of the runtime; \<open>Start\<close> on a stopped
  simulation sets the ticker and the two channels and starts \<open>run\<close>. Hence a second
  \<open>Start\<close> after a first changes nothing.
\<close>

theorem Start_idempotent:
  "(clockTicker sim \<noteq> None \<longrightarrow> Start c1 c2 c3 sim = (sim, []))
   \<and> (clockTicker sim = None \<longrightarrow>
        Start c1 c2 c3 sim =
          (sim\<lparr>clockTicker := Some (NewTicker c1 TIME_STEP), stopChan := Some c2,
               EventChan := Some c3\<rparr>,
           [Go_run, Log_Info ''Simulation started'']))
   \<and> Start d1 d2 d3 (fst (Start c1 c2 c3 sim)) = (fst (Start c1 c2 c3 sim), [])"
  by (simp add: Start_def)

theorem Start_idempotent_witness:
  "clockTicker stopped_simulation = None
   \<and> clockTicker started_simulation = Some (NewTicker (Chan 0) TIME_STEP)
   \<and> stopChan started_simulation = Some (Chan 1)
   \<and> EventChan started_simulation = Some (Chan 2)
   \<and> snd (Start (Chan 0) (Chan 1) (Chan 2) stopped_simulation) =
       [Go_run, Log_Info ''Simulation started'']
   \<and> Start (Chan 3) (Chan 4) (Chan 5) started_simulation = (started_simulation, [])"
proof -
  note start = Start_idempotent
    [of stopped_simulation "Chan 0" "Chan 1" "Chan 2" "Chan 3" "Chan 4" "Chan 5"]
  have stopped: "clockTicker stopped_simulation = None"
    by (simp add: stopped_simulation_def)
  with start have first:
    "Start (Chan 0) (Chan 1) (Chan 2) stopped_simulation =
       (stopped_simulation\<lparr>clockTicker := Some (NewTicker (Chan 0) TIME_STEP),
          stopChan := Some (Chan 1), EventChan := Some (Chan 2)\<rparr>,
        [Go_run, Log_Info ''Simulation started''])"
    by blast
  from start have second:
    "Start (Chan 3) (Chan 4) (Chan 5) started_simulation = (started_simulation, [])"
    unfolding started_simulation_def by blast
  have fields: "clockTicker started_simulation = Some (NewTicker (Chan 0) TIME_STEP)
     \<and> stopChan started_simulation = Some (Chan 1)
     \<and> EventChan started_simulation = Some (Chan 2)"
    unfolding started_simulation_def first by simp
  from stopped first second fields show ?thesis by simp
qed

lemma load_TrackItems_unknown_type:
  assumes "(tiId, raw) \<in> set items"
    and "type_tag raw \<notin> set known_tags"
  shows "\<exists>e. load_TrackItems items sim = Inl e"
  using assms
proof (induction items arbitrary: sim)
  case Nil
  then show ?case by simp
next
  case (Cons item items)
  obtain k x where item: "item = (k, x)" by (cases item)
  show ?case
  proof (cases "(tiId, raw) = item")
    case True
    with Cons.prems(2) item show ?thesis
      by (simp add: known_tags_def)
  next
    case False
    with Cons.prems have "(tiId, raw) \<in> set items" by simp
    from Cons.IH [OF this Cons.prems(2)] item show ?thesis
      by (simp split: option.split)
  qed
qed

lemma UnmarshalJSON_unknown_type:
  assumes "(tiId, raw) \<in> set (aux_TrackItems rawSim)"
    and "type_tag raw \<notin> set known_tags"
  shows "\<exists>e. UnmarshalJSON initialize (Some rawSim) sim = Inl e"
proof -
  from load_TrackItems_unknown_type [OF assms]
  obtain e where "load_TrackItems (aux_TrackItems rawSim)
      (sim\<lparr>TrackItems := Map.empty, Places := Map.empty\<rparr>) = Inl e"
    by blast
  then show ?thesis by (simp add: UnmarshalJSON_def)
qed

lemma unmarshalItem_malformed_key:
  assumes "Atoi (Trim tiId [dquote]) = None"
  shows "snd (unmarshalItem tiId raw t sim) = sim"
  using assms by (simp add: unmarshalItem_def split: option.split)

text \<open>
  Claim C4 says that a track item key that is not an integer makes \<open>UnmarshalJSON\<close>
  return an error. On the code, the file whose only track item is a line under the key
  \<open>abc\<close> loads without error, and the loaded simulation has no track item: the error
  that \<open>unmarshalItem\<close> returns for the key is built and dropped.
\<close>

theorem UnmarshalJSON_drops_item_with_key_abc:
  "Atoi (Trim ''abc'' [dquote]) = None
   \<and> fst (unmarshalItem ''abc'' line_text TypeLine stopped_simulation) = Some Unable_to_convert
   \<and> \<not> isl (UnmarshalJSON (\<lambda>sim route. route) (Some file_with_key_abc) stopped_simulation)
   \<and> TrackItems (projr (UnmarshalJSON (\<lambda>sim route. route) (Some file_with_key_abc)
        stopped_simulation)) = Map.empty"
  by (simp add: UnmarshalJSON_def unmarshalItem_def file_with_key_abc_def line_text_def
      Atoi_def Trim_def is_digit_def dquote_def quoted_def)

end
